theory Spec2Isabelle
  imports Complex_Main "HOL-Library.Multiset" "HOL-Library.Log_Nat"
begin

section \<open>Data model\<close>

text \<open>
  The interfaces of \<^verbatim>\<open>app/bill/[id]/page.tsx\<close> and of the \<^verbatim>\<open>useUser\<close> hook. The
  fields called \<^verbatim>\<open>id\<close> and \<^verbatim>\<open>name\<close> in the source carry the initial of their
  interface, since three interfaces share them.

  A JavaScript \<^verbatim>\<open>number\<close> is an IEEE-754 double. The interfaces take the type of
  their numbers as a parameter \<open>'n\<close>, and the page is modelled twice: over
  \<^typ>\<open>real\<close>, where the arithmetic of the page is read as arithmetic on the numbers
  themselves, with no rounding, and over the doubles of section \<open>IEEE-754 doubles\<close>,
  where every operation rounds as the code does. \<open>Item\<close>, \<open>Claim\<close>, \<open>Bill\<close> and
  \<open>Totals\<close> are the interfaces over the reals.
\<close>

record 'n Item_of =
  i_id :: string
  i_name :: string
  quantity :: 'n
  unit_price :: 'n
  category :: string

record 'n Claim_of =
  item_id :: string
  user_id :: string
  user_name :: string
  percentage :: 'n

record 'n Bill_of =
  b_id :: string
  currency :: string
  total_amount :: 'n
  tax_amount :: 'n
  tip_amount :: 'n

record User =
  u_id :: string
  u_name :: string

text \<open>The object returned by the \<^verbatim>\<open>myTotals\<close> memo.\<close>

record 'n Totals_of =
  subtotal :: 'n
  tax :: 'n
  tip :: 'n
  total :: 'n

type_synonym Item = "real Item_of"
type_synonym Claim = "real Claim_of"
type_synonym Bill = "real Bill_of"
type_synonym Totals = "real Totals_of"

section \<open>Allocation engine\<close>

text \<open>\<^verbatim>\<open>getClaimants\<close>: the claim rows of one item, in the order of the snapshot.\<close>

definition getClaimants :: "Claim list \<Rightarrow> string \<Rightarrow> Claim list" where
  "getClaimants cs itemId = filter (\<lambda>c. item_id c = itemId) cs"

text \<open>
  The body of \<^verbatim>\<open>items.forEach\<close> in \<^verbatim>\<open>myTotals\<close>. The two variables the closure
  updates, \<^verbatim>\<open>mySubtotal\<close> and \<^verbatim>\<open>billSubtotal\<close>, are passed as a pair and returned
  updated. \<^verbatim>\<open>Array.prototype.some\<close> is \<^const>\<open>list_ex\<close>, \<^verbatim>\<open>.length\<close> is
  \<^const>\<open>length\<close>.
\<close>

definition forEach_body :: "Claim list \<Rightarrow> User \<Rightarrow> Item \<Rightarrow> real \<times> real \<Rightarrow> real \<times> real" where
  "forEach_body cs u item acc =
     (case acc of (mySubtotal, billSubtotal) \<Rightarrow>
        let billSubtotal' = billSubtotal + unit_price item;
            itemClaimants = filter (\<lambda>c. item_id c = i_id item) cs;
            isMine = list_ex (\<lambda>c. user_id c = u_id u) itemClaimants
        in if isMine
           then let splitCount = length itemClaimants
                in (mySubtotal + unit_price item / real splitCount, billSubtotal')
           else (mySubtotal, billSubtotal'))"

text \<open>
  \<^verbatim>\<open>myTotals\<close>. \<^verbatim>\<open>user\<close> and \<^verbatim>\<open>bill\<close> are objects or \<^verbatim>\<open>null\<close>, so
  \<^verbatim>\<open>!user || !bill\<close> holds exactly when one of them is \<^const>\<open>None\<close>.
\<close>

definition myTotals :: "Item list \<Rightarrow> Claim list \<Rightarrow> Bill option \<Rightarrow> User option \<Rightarrow> Totals" where
  "myTotals its cs bill user =
     (case user of
        None \<Rightarrow> \<lparr>subtotal = 0, tax = 0, tip = 0, total = 0\<rparr>
      | Some u \<Rightarrow>
          (case bill of
             None \<Rightarrow> \<lparr>subtotal = 0, tax = 0, tip = 0, total = 0\<rparr>
           | Some b \<Rightarrow>
               (case fold (forEach_body cs u) its (0, 0) of
                  (mySubtotal, billSubtotal) \<Rightarrow>
                    let ratio = (if billSubtotal > 0 then mySubtotal / billSubtotal else 0);
                        myTax = tax_amount b * ratio;
                        myTip = tip_amount b * ratio
                    in \<lparr>subtotal = mySubtotal, tax = myTax, tip = myTip,
                        total = mySubtotal + myTax + myTip\<rparr>)))"

text \<open>
  \<^verbatim>\<open>myShare\<close>, as the item list of the page computes it for one item, with the user
  resolved: \<^verbatim>\<open>isMine ? (item.unit_price / splitCount) : 0\<close>, where
  \<^verbatim>\<open>claimants = getClaimants(item.id)\<close> and \<^verbatim>\<open>splitCount = claimants.length\<close>.
\<close>

definition myShare :: "Claim list \<Rightarrow> User \<Rightarrow> Item \<Rightarrow> real" where
  "myShare cs u item =
     (if list_ex (\<lambda>c. user_id c = u_id u) (getClaimants cs (i_id item))
      then unit_price item / real (length (getClaimants cs (i_id item))) else 0)"

subsection \<open>The same code with division checked\<close>

text \<open>
  JavaScript's \<^verbatim>\<open>/\<close> never raises, and HOL's division by zero is 0, so neither shows
  whether a division by zero is reached. Here every \<^verbatim>\<open>/\<close> of \<^verbatim>\<open>myTotals\<close> is
  replaced by a division that fails on a zero divisor; the rest is the code above,
  with the failure passed on.
\<close>

datatype arith_error = DivisionByZero

definition checked_div :: "real \<Rightarrow> real \<Rightarrow> arith_error + real" where
  "checked_div x y = (if y = 0 then Inl DivisionByZero else Inr (x / y))"

definition forEach_body_checked ::
  "Claim list \<Rightarrow> User \<Rightarrow> Item \<Rightarrow> real \<times> real \<Rightarrow> arith_error + real \<times> real" where
  "forEach_body_checked cs u item acc =
     (case acc of (mySubtotal, billSubtotal) \<Rightarrow>
        let billSubtotal' = billSubtotal + unit_price item;
            itemClaimants = filter (\<lambda>c. item_id c = i_id item) cs;
            isMine = list_ex (\<lambda>c. user_id c = u_id u) itemClaimants
        in if isMine
           then let splitCount = length itemClaimants
                in (case checked_div (unit_price item) (real splitCount) of
                      Inl e \<Rightarrow> Inl e
                    | Inr q \<Rightarrow> Inr (mySubtotal + q, billSubtotal'))
           else Inr (mySubtotal, billSubtotal'))"

fun forEach_checked ::
  "Claim list \<Rightarrow> User \<Rightarrow> Item list \<Rightarrow> real \<times> real \<Rightarrow> arith_error + real \<times> real" where
  "forEach_checked cs u [] acc = Inr acc"
| "forEach_checked cs u (item # its) acc =
     (case forEach_body_checked cs u item acc of
        Inl e \<Rightarrow> Inl e
      | Inr acc' \<Rightarrow> forEach_checked cs u its acc')"

text \<open>\<^verbatim>\<open>billSubtotal > 0 ? (mySubtotal / billSubtotal) : 0\<close>\<close>

definition ratio_checked :: "real \<Rightarrow> real \<Rightarrow> arith_error + real" where
  "ratio_checked mySubtotal billSubtotal =
     (if billSubtotal > 0 then checked_div mySubtotal billSubtotal else Inr 0)"

definition myTotals_checked ::
  "Item list \<Rightarrow> Claim list \<Rightarrow> Bill option \<Rightarrow> User option \<Rightarrow> arith_error + Totals" where
  "myTotals_checked its cs bill user =
     (case user of
        None \<Rightarrow> Inr \<lparr>subtotal = 0, tax = 0, tip = 0, total = 0\<rparr>
      | Some u \<Rightarrow>
          (case bill of
             None \<Rightarrow> Inr \<lparr>subtotal = 0, tax = 0, tip = 0, total = 0\<rparr>
           | Some b \<Rightarrow>
               (case forEach_checked cs u its (0, 0) of
                  Inl e \<Rightarrow> Inl e
                | Inr (mySubtotal, billSubtotal) \<Rightarrow>
                    (case ratio_checked mySubtotal billSubtotal of
                       Inl e \<Rightarrow> Inl e
                     | Inr ratio \<Rightarrow>
                         let myTax = tax_amount b * ratio;
                             myTip = tip_amount b * ratio
                         in Inr \<lparr>subtotal = mySubtotal, tax = myTax, tip = myTip,
                                 total = mySubtotal + myTax + myTip\<rparr>))))"

subsection \<open>Claim sequences that differ in their percentages only\<close>

definition same_except_percentage :: "Claim list \<Rightarrow> Claim list \<Rightarrow> bool" where
  "same_except_percentage cs cs' =
     list_all2 (\<lambda>c c'. item_id c = item_id c' \<and> user_id c = user_id c'
                        \<and> user_name c = user_name c') cs cs'"

section \<open>IEEE-754 doubles\<close>

text \<open>
  A double is a finite number, an infinity or NaN. A finite double is its sign bit
  (\<open>True\<close> for minus) and its magnitude, so that the two zeros are apart; an infinity
  is its sign bit.
\<close>

datatype double = Finite bool real | Infinity bool | NaN

text \<open>\<open>pow2 e\<close> is \<open>2\<close> to the power \<open>e\<close>, for an integer \<open>e\<close>.\<close>

definition pow2 :: "int \<Rightarrow> real" where
  "pow2 e = (if 0 \<le> e then 2 ^ nat e else 1 / 2 ^ nat (- e))"

text \<open>
  The binary exponent of a positive number \<open>x\<close>: the \<open>k\<close> with
  \<open>pow2 k \<le> x < pow2 (k + 1)\<close>, read off the bit length of \<open>\<lfloor>x\<rfloor>\<close> when
  \<open>1 \<le> x\<close> and of \<open>\<lceil>1 / x\<rceil> - 1\<close> otherwise.
\<close>

definition floor_log2 :: "real \<Rightarrow> int" where
  "floor_log2 x = (if 1 \<le> x then bitlen \<lfloor>x\<rfloor> - 1 else - bitlen (\<lceil>1 / x\<rceil> - 1))"

text \<open>Rounding to the nearest integer, a tie going to the even one.\<close>

definition round_half_even :: "real \<Rightarrow> int" where
  "round_half_even q =
     (if q - of_int \<lfloor>q\<rfloor> < 1 / 2 then \<lfloor>q\<rfloor>
      else if q - of_int \<lfloor>q\<rfloor> > 1 / 2 then \<lfloor>q\<rfloor> + 1
      else if even \<lfloor>q\<rfloor> then \<lfloor>q\<rfloor> else \<lfloor>q\<rfloor> + 1)"

text \<open>
  Rounding of an exact magnitude \<open>x\<close> with sign \<open>s\<close> to a double (binary64, round to
  nearest, ties to even): the result is a multiple of the quantum \<open>pow2 e\<close>, where
  \<open>e\<close> leaves 53 significant bits and is not below \<open>- 1074\<close>, the quantum of the
  subnormal numbers; a result of \<open>2 ^ 1024\<close> or more is an infinity. A magnitude that
  rounds to zero keeps its sign.
\<close>

definition rnd :: "bool \<Rightarrow> real \<Rightarrow> double" where
  "rnd s x =
     (if x = 0 then Finite s 0
      else let e = max (floor_log2 x - 52) (- 1074);
               r = of_int (round_half_even (x / pow2 e)) * pow2 e
           in if r \<ge> 2 ^ 1024 then Infinity s else Finite s r)"

text \<open>
  The operators of the page on doubles. \<^verbatim>\<open>+\<close>: equal signs add the magnitudes,
  opposite signs subtract the smaller from the larger, and an exact zero difference is
  \<open>+0\<close>; opposite infinities give NaN.
\<close>

fun add_double :: "double \<Rightarrow> double \<Rightarrow> double" where
  "add_double (Finite s a) (Finite t b) =
     (if s = t then rnd s (a + b)
      else if a > b then rnd s (a - b)
      else if b > a then rnd t (b - a)
      else Finite False 0)"
| "add_double (Finite s a) (Infinity t) = Infinity t"
| "add_double (Infinity s) (Finite t b) = Infinity s"
| "add_double (Infinity s) (Infinity t) = (if s = t then Infinity s else NaN)"
| "add_double NaN y = NaN"
| "add_double x NaN = NaN"

text \<open>\<^verbatim>\<open>*\<close>: the sign is the exclusive or of the signs; zero times infinity is NaN.\<close>

fun mul_double :: "double \<Rightarrow> double \<Rightarrow> double" where
  "mul_double (Finite s a) (Finite t b) = rnd (s \<noteq> t) (a * b)"
| "mul_double (Finite s a) (Infinity t) = (if a = 0 then NaN else Infinity (s \<noteq> t))"
| "mul_double (Infinity s) (Finite t b) = (if b = 0 then NaN else Infinity (s \<noteq> t))"
| "mul_double (Infinity s) (Infinity t) = Infinity (s \<noteq> t)"
| "mul_double NaN y = NaN"
| "mul_double x NaN = NaN"

text \<open>
  \<^verbatim>\<open>/\<close> never raises: a non-zero number over zero is an infinity, zero over zero and
  infinity over infinity are NaN, a finite number over an infinity is a zero.
\<close>

fun div_double :: "double \<Rightarrow> double \<Rightarrow> double" where
  "div_double (Finite s a) (Finite t b) =
     (if b = 0 then (if a = 0 then NaN else Infinity (s \<noteq> t))
      else rnd (s \<noteq> t) (a / b))"
| "div_double (Finite s a) (Infinity t) = Finite (s \<noteq> t) 0"
| "div_double (Infinity s) (Finite t b) = Infinity (s \<noteq> t)"
| "div_double (Infinity s) (Infinity t) = NaN"
| "div_double NaN y = NaN"
| "div_double x NaN = NaN"

text \<open>\<^verbatim>\<open>x > 0\<close>: false for both zeros, for what is negative and for NaN.\<close>

fun greater_zero :: "double \<Rightarrow> bool" where
  "greater_zero (Finite s a) = (\<not> s \<and> a > 0)"
| "greater_zero (Infinity s) = (\<not> s)"
| "greater_zero NaN = False"

text \<open>The literal \<^verbatim>\<open>0\<close>, and the \<^verbatim>\<open>.length\<close> of an array as a number.\<close>

definition zero_double :: double where
  "zero_double = Finite False 0"

definition double_of_nat :: "nat \<Rightarrow> double" where
  "double_of_nat n = rnd False (real n)"

section \<open>The allocation engine over doubles\<close>

text \<open>
  The body of \<^verbatim>\<open>items.forEach\<close> and \<^verbatim>\<open>myTotals\<close> once more, with the operators
  of the doubles in the place of those of the reals and nothing else changed.
\<close>

definition forEach_body_double ::
  "double Claim_of list \<Rightarrow> User \<Rightarrow> double Item_of \<Rightarrow> double \<times> double \<Rightarrow> double \<times> double" where
  "forEach_body_double cs u item acc =
     (case acc of (mySubtotal, billSubtotal) \<Rightarrow>
        let billSubtotal' = add_double billSubtotal (unit_price item);
            itemClaimants = filter (\<lambda>c. item_id c = i_id item) cs;
            isMine = list_ex (\<lambda>c. user_id c = u_id u) itemClaimants
        in if isMine
           then let splitCount = length itemClaimants
                in (add_double mySubtotal (div_double (unit_price item) (double_of_nat splitCount)),
                    billSubtotal')
           else (mySubtotal, billSubtotal'))"

definition myTotals_double ::
  "double Item_of list \<Rightarrow> double Claim_of list \<Rightarrow> double Bill_of option \<Rightarrow> User option
     \<Rightarrow> double Totals_of" where
  "myTotals_double its cs bill user =
     (case user of
        None \<Rightarrow> \<lparr>subtotal = zero_double, tax = zero_double, tip = zero_double,
                 total = zero_double\<rparr>
      | Some u \<Rightarrow>
          (case bill of
             None \<Rightarrow> \<lparr>subtotal = zero_double, tax = zero_double, tip = zero_double,
                      total = zero_double\<rparr>
           | Some b \<Rightarrow>
               (case fold (forEach_body_double cs u) its (zero_double, zero_double) of
                  (mySubtotal, billSubtotal) \<Rightarrow>
                    let ratio = (if greater_zero billSubtotal
                                 then div_double mySubtotal billSubtotal else zero_double);
                        myTax = mul_double (tax_amount b) ratio;
                        myTip = mul_double (tip_amount b) ratio
                    in \<lparr>subtotal = mySubtotal, tax = myTax, tip = myTip,
                        total = add_double (add_double mySubtotal myTax) myTip\<rparr>)))"



section \<open>Identity provider\<close>

text \<open>
  \<^verbatim>\<open>localStorage\<close> maps keys to strings; \<^verbatim>\<open>getItem\<close> answers \<^verbatim>\<open>null\<close> for a key
  that is not there. A value \<^verbatim>\<open>string | null\<close> (or \<^verbatim>\<open>string | undefined\<close>) is truthy
  when it is a non-empty string.
\<close>

type_synonym Storage = "string \<rightharpoonup> string"

definition truthy :: "string option \<Rightarrow> bool" where
  "truthy v = (case v of None \<Rightarrow> False | Some s \<Rightarrow> s \<noteq> [])"

text \<open>The state of the \<^verbatim>\<open>useUser\<close> hook: its two \<^verbatim>\<open>useState\<close> cells.\<close>

record HookState =
  hk_user :: "User option"
  hk_loading :: bool

definition useUser_initial :: HookState where
  "useUser_initial = \<lparr>hk_user = None, hk_loading = True\<rparr>"

text \<open>The effect \<^verbatim>\<open>useUser\<close> runs once after mounting.\<close>

definition useUser_effect :: "Storage \<Rightarrow> HookState \<Rightarrow> HookState" where
  "useUser_effect ls st =
     (let storedId = ls ''bill_splitter_user_id'';
          storedName = ls ''bill_splitter_user_name'';
          st' = (case storedId of
                   None \<Rightarrow> st
                 | Some sid \<Rightarrow>
                     (case storedName of
                        None \<Rightarrow> st
                      | Some sname \<Rightarrow>
                          if truthy storedId \<and> truthy storedName
                          then st\<lparr>hk_user := Some \<lparr>u_id = sid, u_name = sname\<rparr>\<rparr>
                          else st))
      in st'\<lparr>hk_loading := False\<rparr>)"

text \<open>
  \<^verbatim>\<open>registerUser\<close>. The identifier is what \<^verbatim>\<open>uuidv4()\<close> answered, passed in as
  \<open>newId\<close>; the function updates the storage and the hook's user.
\<close>

definition registerUser :: "string \<Rightarrow> string \<Rightarrow> Storage \<times> HookState \<Rightarrow> Storage \<times> HookState" where
  "registerUser newId nm env =
     (case env of (ls, st) \<Rightarrow>
        (ls(''bill_splitter_user_id'' \<mapsto> newId, ''bill_splitter_user_name'' \<mapsto> nm),
         st\<lparr>hk_user := Some \<lparr>u_id = newId, u_name = nm\<rparr>\<rparr>))"

text \<open>
  The two operations under the names of the specification: \<open>resolveIdentity\<close> is the
  user a freshly mounted hook holds once its effect has run on the storage;
  \<open>registerIdentity\<close> is \<^verbatim>\<open>registerUser\<close> on a mounted hook, giving the storage it
  leaves and the user the hook then holds.
\<close>

definition resolveIdentity :: "Storage \<Rightarrow> User option" where
  "resolveIdentity ls = hk_user (useUser_effect ls useUser_initial)"

definition registerIdentity :: "string \<Rightarrow> string \<Rightarrow> Storage \<Rightarrow> Storage \<times> User option" where
  "registerIdentity newId nm ls =
     (case registerUser newId nm (ls, useUser_effect ls useUser_initial) of
        (ls', st') \<Rightarrow> (ls', hk_user st'))"

section \<open>Claim submission\<close>

text \<open>
  What \<^verbatim>\<open>handleClaim\<close> can touch: the three \<^verbatim>\<open>useState\<close> cells of the snapshot,
  the hook's user, the storage, and the three ways it reaches the outside: the console,
  \<^verbatim>\<open>alert\<close>, and \<^verbatim>\<open>fetch\<close>. Each of the last three is the list of what was written,
  shown or sent so far.
\<close>

datatype js_error = FetchFailed | ServerError nat

datatype console_entry =
    ApiUrlNotDefined
  | NetworkErrorLog js_error

record Request =
  req_url :: string
  req_item_id :: string
  req_user_id :: string
  req_user_name :: string

datatype fetch_result = Rejected | Response nat

record PageState =
  s_items :: "Item list"
  s_claims :: "Claim list"
  s_bill :: "Bill option"
  s_user :: "User option"
  s_localStorage :: Storage
  s_console :: "console_entry list"
  s_alerts :: "string list"
  s_requests :: "Request list"

text \<open>A \<^verbatim>\<open>string | undefined\<close> inside a template literal.\<close>

definition template_str :: "string option \<Rightarrow> string" where
  "template_str v = (case v of None \<Rightarrow> ''undefined'' | Some s \<Rightarrow> s)"

text \<open>\<^verbatim>\<open>response.ok\<close>: the status is in the range 200 to 299.\<close>

definition response_ok :: "nat \<Rightarrow> bool" where
  "response_ok status = (200 \<le> status \<and> status \<le> 299)"

text \<open>The \<^verbatim>\<open>catch\<close> block of \<^verbatim>\<open>handleClaim\<close>.\<close>

definition catch_block :: "js_error \<Rightarrow> PageState \<Rightarrow> PageState" where
  "catch_block err st =
     st\<lparr>s_console := s_console st @ [NetworkErrorLog err],
        s_alerts := s_alerts st
          @ [''Could not connect to server. Check if backend/ngrok is running.'']\<rparr>"

text \<open>
  \<^verbatim>\<open>handleClaim\<close>. \<open>apiUrl\<close> is \<^verbatim>\<open>process.env.NEXT_PUBLIC_API_URL\<close>, a string or
  undefined; \<open>answer\<close> is what the awaited \<^verbatim>\<open>fetch\<close> comes back with, a rejection or
  a response with its status. The function sends at most one request.
\<close>

definition handleClaim ::
  "string option \<Rightarrow> fetch_result \<Rightarrow> string \<Rightarrow> string \<Rightarrow> PageState \<Rightarrow> PageState" where
  "handleClaim apiUrl answer billId itemId st =
     (case s_user st of
        None \<Rightarrow> st
      | Some u \<Rightarrow>
          if \<not> truthy apiUrl
          then st\<lparr>s_console := s_console st @ [ApiUrlNotDefined]\<rparr>
          else
            let st1 = st\<lparr>s_requests := s_requests st @
                        [\<lparr>req_url = template_str apiUrl @ ''/v1/bills/'' @ billId @ ''/claim'',
                          req_item_id = itemId, req_user_id = u_id u,
                          req_user_name = u_name u\<rparr>]\<rparr>
            in (case answer of
                  Rejected \<Rightarrow> catch_block FetchFailed st1
                | Response status \<Rightarrow>
                    if \<not> response_ok status then catch_block (ServerError status) st1
                    else st1))"

section \<open>The reference algorithm of the specification\<close>





section \<open>Helper lemmas\<close>

subsection \<open>The loop as two sums\<close>

lemma forEach_body_eq:
  "forEach_body cs u item (m, b) = (m + myShare cs u item, b + unit_price item)"
  by (simp add: forEach_body_def myShare_def getClaimants_def Let_def)

lemma fold_forEach_body:
  "fold (forEach_body cs u) its (m, b) =
     (m + (\<Sum>item \<leftarrow> its. myShare cs u item), b + (\<Sum>item \<leftarrow> its. unit_price item))"
  by (induction its arbitrary: m b) (simp_all add: forEach_body_eq add.assoc)



subsection \<open>Helper lemmas for the checked engine\<close>

lemma list_ex_length_pos: "list_ex P xs \<Longrightarrow> 1 \<le> length xs"
  by (cases xs) simp_all

lemma forEach_body_checked_eq:
  "forEach_body_checked cs u item acc = Inr (forEach_body cs u item acc)"
proof (cases acc)
  case (Pair m b)
  show ?thesis
  proof (cases "list_ex (\<lambda>c. user_id c = u_id u) (filter (\<lambda>c. item_id c = i_id item) cs)")
    case True
    then have "1 \<le> length (filter (\<lambda>c. item_id c = i_id item) cs)"
      by (rule list_ex_length_pos)
    then have "real (length (filter (\<lambda>c. item_id c = i_id item) cs)) \<noteq> 0"
      by linarith
    with True Pair show ?thesis
      by (simp add: forEach_body_checked_def forEach_body_def checked_div_def Let_def)
  next
    case False
    with Pair show ?thesis
      by (simp add: forEach_body_checked_def forEach_body_def Let_def)
  qed
qed

lemma forEach_checked_eq:
  "forEach_checked cs u its acc = Inr (fold (forEach_body cs u) its acc)"
  by (induction its arbitrary: acc) (simp_all add: forEach_body_checked_eq)

lemma ratio_checked_eq:
  "ratio_checked m b = Inr (if b > 0 then m / b else 0)"
  by (simp add: ratio_checked_def checked_div_def)

lemma sum_list_all_zero:
  "list_all (\<lambda>item. unit_price item = 0) its \<Longrightarrow> (\<Sum>item \<leftarrow> its. unit_price item) = 0"
  by (induction its) simp_all

subsection \<open>Helper lemmas for percentages\<close>

lemma same_except_percentage_filter:
  "same_except_percentage cs cs' \<Longrightarrow>
     same_except_percentage (filter (\<lambda>c. item_id c = i) cs) (filter (\<lambda>c. item_id c = i) cs')"
  unfolding same_except_percentage_def
  by (induction rule: list_all2_induct) simp_all

lemma same_except_percentage_list_ex:
  "same_except_percentage cs cs' \<Longrightarrow>
     list_ex (\<lambda>c. user_id c = w) cs = list_ex (\<lambda>c. user_id c = w) cs'"
  unfolding same_except_percentage_def
  by (induction rule: list_all2_induct) simp_all

lemma same_except_percentage_length:
  "same_except_percentage cs cs' \<Longrightarrow> length cs = length cs'"
  unfolding same_except_percentage_def by (rule list_all2_lengthD)

lemma same_except_percentage_body:
  assumes "same_except_percentage cs cs'"
  shows "forEach_body cs u item acc = forEach_body cs' u item acc"
proof -
  let ?f = "filter (\<lambda>c. item_id c = i_id item) cs"
  let ?f' = "filter (\<lambda>c. item_id c = i_id item) cs'"
  have rel: "same_except_percentage ?f ?f'"
    using assms by (rule same_except_percentage_filter)
  have "length ?f = length ?f'"
    using rel by (rule same_except_percentage_length)
  moreover have "list_ex (\<lambda>c. user_id c = u_id u) ?f = list_ex (\<lambda>c. user_id c = u_id u) ?f'"
    using rel by (rule same_except_percentage_list_ex)
  ultimately show ?thesis
    by (cases acc) (simp add: forEach_body_def Let_def)
qed

subsection \<open>Helper lemmas for the order of the items\<close>



subsection \<open>Helper lemmas for the shares of one item\<close>

lemma myShare_of_claimant:
  assumes "c \<in> set (getClaimants cs (i_id item))"
  shows "myShare cs \<lparr>u_id = user_id c, u_name = n\<rparr> item
           = unit_price item / real (length (getClaimants cs (i_id item)))"
  using assms by (auto simp add: myShare_def list_ex_iff)

lemma sum_list_equal_shares:
  assumes "1 \<le> length rows"
  shows "(\<Sum>c \<leftarrow> rows. p / real (length rows)) = (p::real)"
proof -
  have "(\<Sum>c \<leftarrow> rows. p / real (length rows)) = real (length rows) * (p / real (length rows))"
    by (simp add: sum_list_triv)
  also have "\<dots> = p"
    using assms by auto
  finally show ?thesis .
qed

subsection \<open>Helper lemmas for the doubles\<close>

text \<open>Evaluation of the bit length on numerals, and the facts that evaluate a double operation.\<close>

lemma bitlen_numeral_step: "bitlen (numeral n) = bitlen (numeral n div 2) + 1"
  by (subst compute_bitlen) simp

lemma bitlen_one: "bitlen 1 = 1"
  by (subst compute_bitlen) simp

lemmas double_eval =
  rnd_def floor_log2_def pow2_def round_half_even_def bitlen_numeral_step bitlen_one
  zero_double_def double_of_nat_def

lemma forEach_body_double_eq:
  "forEach_body_double cs u item (m, b) =
     (if list_ex (\<lambda>c. user_id c = u_id u) (filter (\<lambda>c. item_id c = i_id item) cs)
      then add_double m (div_double (unit_price item)
             (double_of_nat (length (filter (\<lambda>c. item_id c = i_id item) cs))))
      else m,
      add_double b (unit_price item))"
  by (simp add: forEach_body_double_def Let_def)




subsection \<open>Helper lemmas for the identity provider\<close>

lemma truthy_Some: "truthy (Some s) = (s \<noteq> [])"
  by (simp add: truthy_def)

lemma resolveIdentity_eq:
  "resolveIdentity ls =
     (case ls ''bill_splitter_user_id'' of
        None \<Rightarrow> None
      | Some sid \<Rightarrow>
          (case ls ''bill_splitter_user_name'' of
             None \<Rightarrow> None
           | Some sname \<Rightarrow>
               if sid \<noteq> [] \<and> sname \<noteq> [] then Some \<lparr>u_id = sid, u_name = sname\<rparr> else None))"
  by (simp add: resolveIdentity_def useUser_effect_def useUser_initial_def truthy_Some Let_def
      split: option.splits)

section \<open>Claims\<close>


text \<open>
  C2, as the specification states it: the divisor of a claimant's implicit share is
  the number of distinct claimants (distinct user ids) of the item, so a duplicate claim
  row with a pair (item id, user id) that is already there changes no share and no total.
  This fails on the code, which divides by \<^verbatim>\<open>itemClaimants.length\<close>, the number of
  claim rows of the item: an item of 90 claimed by Ann and Bo gives Bo 45; with Ann's
  row a second time Bo's subtotal is 30, and his totals differ.
\<close>

theorem duplicate_claim_changes_totals:
  "myTotals
       [\<lparr>i_id = ''i1'', i_name = ''Pizza'', quantity = 1, unit_price = 90, category = ''food''\<rparr>]
       [\<lparr>item_id = ''i1'', user_id = ''u1'', user_name = ''Ann'', percentage = 1\<rparr>,
        \<lparr>item_id = ''i1'', user_id = ''u2'', user_name = ''Bo'', percentage = 1\<rparr>,
        \<lparr>item_id = ''i1'', user_id = ''u1'', user_name = ''Ann'', percentage = 1\<rparr>]
       (Some \<lparr>b_id = ''b1'', currency = ''USD'', total_amount = 120, tax_amount = 20, tip_amount = 10\<rparr>)
       (Some \<lparr>u_id = ''u2'', u_name = ''Bo''\<rparr>)
   \<noteq> myTotals
       [\<lparr>i_id = ''i1'', i_name = ''Pizza'', quantity = 1, unit_price = 90, category = ''food''\<rparr>]
       [\<lparr>item_id = ''i1'', user_id = ''u1'', user_name = ''Ann'', percentage = 1\<rparr>,
        \<lparr>item_id = ''i1'', user_id = ''u2'', user_name = ''Bo'', percentage = 1\<rparr>]
       (Some \<lparr>b_id = ''b1'', currency = ''USD'', total_amount = 120, tax_amount = 20, tip_amount = 10\<rparr>)
       (Some \<lparr>u_id = ''u2'', u_name = ''Bo''\<rparr>)"
  by (simp add: myTotals_def forEach_body_def)

text \<open>
  C2, amended. For every item the divisor used for a claimant's implicit share is the
  number of claim rows that reference the item: when the current user is among the
  item's claimants the loop adds the unit price divided by that number of rows. The
  number of rows is the number of distinct claimants whenever no user id occurs twice
  among the rows of the item, and every further claim row of the item, a duplicate
  included, raises the divisor by one.
\<close>

theorem splitCount_counts_claim_rows:
  "(list_ex (\<lambda>c. user_id c = u_id u) (getClaimants cs (i_id item)) \<longrightarrow>
      forEach_body cs u item (m, b) =
        (m + unit_price item / real (length (getClaimants cs (i_id item))), b + unit_price item))
   \<and> (distinct (map user_id (getClaimants cs (i_id item))) \<longrightarrow>
      length (getClaimants cs (i_id item)) = card (set (map user_id (getClaimants cs (i_id item)))))
   \<and> length (getClaimants (cs @ [c]) (item_id c)) = Suc (length (getClaimants cs (item_id c)))"
proof (intro conjI impI)
  assume "list_ex (\<lambda>c. user_id c = u_id u) (getClaimants cs (i_id item))"
  then show "forEach_body cs u item (m, b) =
      (m + unit_price item / real (length (getClaimants cs (i_id item))), b + unit_price item)"
    by (simp add: forEach_body_eq myShare_def)
next
  assume "distinct (map user_id (getClaimants cs (i_id item)))"
  then have "card (set (map user_id (getClaimants cs (i_id item))))
      = length (map user_id (getClaimants cs (i_id item)))"
    by (rule distinct_card)
  then show "length (getClaimants cs (i_id item))
      = card (set (map user_id (getClaimants cs (i_id item))))"
    by simp
next
  show "length (getClaimants (cs @ [c]) (item_id c)) = Suc (length (getClaimants cs (item_id c)))"
    by (simp add: getClaimants_def)
qed

theorem splitCount_counts_claim_rows_witness:
  "list_ex (\<lambda>c. user_id c = u_id \<lparr>u_id = ''u2'', u_name = ''Bo''\<rparr>)
     (getClaimants
        [\<lparr>item_id = ''i1'', user_id = ''u1'', user_name = ''Ann'', percentage = 1\<rparr>,
         \<lparr>item_id = ''i1'', user_id = ''u2'', user_name = ''Bo'', percentage = 1\<rparr>] ''i1'')
   \<and> distinct (map user_id
     (getClaimants
        [\<lparr>item_id = ''i1'', user_id = ''u1'', user_name = ''Ann'', percentage = 1\<rparr>,
         \<lparr>item_id = ''i1'', user_id = ''u2'', user_name = ''Bo'', percentage = 1\<rparr>] ''i1''))
   \<and> forEach_body
        [\<lparr>item_id = ''i1'', user_id = ''u1'', user_name = ''Ann'', percentage = 1\<rparr>,
         \<lparr>item_id = ''i1'', user_id = ''u2'', user_name = ''Bo'', percentage = 1\<rparr>]
        \<lparr>u_id = ''u2'', u_name = ''Bo''\<rparr>
        \<lparr>i_id = ''i1'', i_name = ''Pizza'', quantity = 1, unit_price = 90, category = ''food''\<rparr>
        (0, 0) = (45, 90)
   \<and> card (set (map user_id
     (getClaimants
        [\<lparr>item_id = ''i1'', user_id = ''u1'', user_name = ''Ann'', percentage = 1\<rparr>,
         \<lparr>item_id = ''i1'', user_id = ''u2'', user_name = ''Bo'', percentage = 1\<rparr>] ''i1''))) = 2
   \<and> length (getClaimants
        ([\<lparr>item_id = ''i1'', user_id = ''u1'', user_name = ''Ann'', percentage = 1\<rparr>,
          \<lparr>item_id = ''i1'', user_id = ''u2'', user_name = ''Bo'', percentage = 1\<rparr>]
         @ [\<lparr>item_id = ''i1'', user_id = ''u1'', user_name = ''Ann'', percentage = 1\<rparr>]) ''i1'') = 3"
  using splitCount_counts_claim_rows
    [of "\<lparr>u_id = ''u2'', u_name = ''Bo''\<rparr>"
        "[\<lparr>item_id = ''i1'', user_id = ''u1'', user_name = ''Ann'', percentage = 1\<rparr>,
          \<lparr>item_id = ''i1'', user_id = ''u2'', user_name = ''Bo'', percentage = 1\<rparr>]"
        "\<lparr>i_id = ''i1'', i_name = ''Pizza'', quantity = 1, unit_price = 90, category = ''food''\<rparr>"
        0 0
        "\<lparr>item_id = ''i1'', user_id = ''u1'', user_name = ''Ann'', percentage = 1\<rparr>"]
  by (simp add: getClaimants_def)

text \<open>
  C3. The allocation engine's output does not depend on the percentage field of any
  claim: two claim sequences that agree in everything but the values of their
  percentage fields give the same totals, for the same items, bill and current user.
\<close>

theorem myTotals_ignores_percentage:
  assumes "same_except_percentage cs cs'"
  shows "myTotals its cs bill user = myTotals its cs' bill user"
proof -
  have "forEach_body cs u = forEach_body cs' u" for u
    using assms by (intro ext) (rule same_except_percentage_body)
  then show ?thesis
    by (cases user; cases bill) (simp_all add: myTotals_def)
qed

theorem myTotals_ignores_percentage_witness:
  "same_except_percentage
     [\<lparr>item_id = ''i1'', user_id = ''u1'', user_name = ''Ann'', percentage = 1\<rparr>,
      \<lparr>item_id = ''i1'', user_id = ''u2'', user_name = ''Bo'', percentage = 0\<rparr>]
     [\<lparr>item_id = ''i1'', user_id = ''u1'', user_name = ''Ann'', percentage = 25\<rparr>,
      \<lparr>item_id = ''i1'', user_id = ''u2'', user_name = ''Bo'', percentage = 75\<rparr>]
   \<and> myTotals
       [\<lparr>i_id = ''i1'', i_name = ''Pizza'', quantity = 1, unit_price = 90, category = ''food''\<rparr>]
       [\<lparr>item_id = ''i1'', user_id = ''u1'', user_name = ''Ann'', percentage = 1\<rparr>,
        \<lparr>item_id = ''i1'', user_id = ''u2'', user_name = ''Bo'', percentage = 0\<rparr>]
       (Some \<lparr>b_id = ''b1'', currency = ''USD'', total_amount = 120, tax_amount = 20, tip_amount = 10\<rparr>)
       (Some \<lparr>u_id = ''u1'', u_name = ''Ann''\<rparr>)
     = myTotals
       [\<lparr>i_id = ''i1'', i_name = ''Pizza'', quantity = 1, unit_price = 90, category = ''food''\<rparr>]
       [\<lparr>item_id = ''i1'', user_id = ''u1'', user_name = ''Ann'', percentage = 25\<rparr>,
        \<lparr>item_id = ''i1'', user_id = ''u2'', user_name = ''Bo'', percentage = 75\<rparr>]
       (Some \<lparr>b_id = ''b1'', currency = ''USD'', total_amount = 120, tax_amount = 20, tip_amount = 10\<rparr>)
       (Some \<lparr>u_id = ''u1'', u_name = ''Ann''\<rparr>)"
proof -
  have h: "same_except_percentage
     [\<lparr>item_id = ''i1'', user_id = ''u1'', user_name = ''Ann'', percentage = 1\<rparr>,
      \<lparr>item_id = ''i1'', user_id = ''u2'', user_name = ''Bo'', percentage = 0\<rparr>]
     [\<lparr>item_id = ''i1'', user_id = ''u1'', user_name = ''Ann'', percentage = 25\<rparr>,
      \<lparr>item_id = ''i1'', user_id = ''u2'', user_name = ''Bo'', percentage = 75\<rparr>]"
    by (simp add: same_except_percentage_def)
  from h myTotals_ignores_percentage [OF h] show ?thesis by blast
qed

text \<open>
  C4, as the specification states it: for every item with a split count of at least 1,
  the implicit shares of its claimants, each the unit price divided by the split count,
  sum to the item's unit price. This fails on the code, which divides by the number of
  claim rows: with the rows of Ann, of Bo and of Ann once more on an item of 90, the
  engine gives Ann a subtotal of 30 and Bo a subtotal of 30, and the shares of the two
  claimants sum to 60. It also fails by rounding: on an item of 100 claimed by six
  distinct users each share is the double nearest to \<^verbatim>\<open>100 / 6\<close>, and the six shares
  add up to \<^verbatim>\<open>100.00000000000001\<close>.
\<close>

theorem duplicate_claim_shares_fall_short:
  "add_double
     (subtotal (myTotals_double
         [\<lparr>i_id = ''i1'', i_name = ''Pizza'', quantity = Finite False 1,
          unit_price = Finite False 90, category = ''food''\<rparr>]
         [\<lparr>item_id = ''i1'', user_id = ''u1'', user_name = ''Ann'', percentage = Finite False 1\<rparr>,
          \<lparr>item_id = ''i1'', user_id = ''u2'', user_name = ''Bo'', percentage = Finite False 1\<rparr>,
          \<lparr>item_id = ''i1'', user_id = ''u1'', user_name = ''Ann'', percentage = Finite False 1\<rparr>]
         (Some \<lparr>b_id = ''b1'', currency = ''USD'', total_amount = Finite False 90,
          tax_amount = Finite False 0, tip_amount = Finite False 0\<rparr>)
         (Some \<lparr>u_id = ''u1'', u_name = ''Ann''\<rparr>)))
     (subtotal (myTotals_double
         [\<lparr>i_id = ''i1'', i_name = ''Pizza'', quantity = Finite False 1,
          unit_price = Finite False 90, category = ''food''\<rparr>]
         [\<lparr>item_id = ''i1'', user_id = ''u1'', user_name = ''Ann'', percentage = Finite False 1\<rparr>,
          \<lparr>item_id = ''i1'', user_id = ''u2'', user_name = ''Bo'', percentage = Finite False 1\<rparr>,
          \<lparr>item_id = ''i1'', user_id = ''u1'', user_name = ''Ann'', percentage = Finite False 1\<rparr>]
         (Some \<lparr>b_id = ''b1'', currency = ''USD'', total_amount = Finite False 90,
          tax_amount = Finite False 0, tip_amount = Finite False 0\<rparr>)
         (Some \<lparr>u_id = ''u2'', u_name = ''Bo''\<rparr>)))
   = Finite False 60
   \<and> Finite False 60 \<noteq> unit_price
         \<lparr>i_id = ''i1'', i_name = ''Pizza'', quantity = Finite False 1,
          unit_price = Finite False 90, category = ''food''\<rparr>
   \<and> add_double
     (add_double
     (add_double
     (add_double
     (add_double
     (subtotal (myTotals_double
         [\<lparr>i_id = ''i1'', i_name = ''Cake'', quantity = Finite False 1,
          unit_price = Finite False 100, category = ''food''\<rparr>]
         [\<lparr>item_id = ''i1'', user_id = ''u1'', user_name = ''Ann'', percentage = Finite False 1\<rparr>,
          \<lparr>item_id = ''i1'', user_id = ''u2'', user_name = ''Bo'', percentage = Finite False 1\<rparr>,
          \<lparr>item_id = ''i1'', user_id = ''u3'', user_name = ''Cy'', percentage = Finite False 1\<rparr>,
          \<lparr>item_id = ''i1'', user_id = ''u4'', user_name = ''Di'', percentage = Finite False 1\<rparr>,
          \<lparr>item_id = ''i1'', user_id = ''u5'', user_name = ''Ed'', percentage = Finite False 1\<rparr>,
          \<lparr>item_id = ''i1'', user_id = ''u6'', user_name = ''Flo'', percentage = Finite False 1\<rparr>]
         (Some \<lparr>b_id = ''b1'', currency = ''USD'', total_amount = Finite False 100,
          tax_amount = Finite False 0, tip_amount = Finite False 0\<rparr>)
         (Some \<lparr>u_id = ''u1'', u_name = ''Ann''\<rparr>)))
     (subtotal (myTotals_double
         [\<lparr>i_id = ''i1'', i_name = ''Cake'', quantity = Finite False 1,
          unit_price = Finite False 100, category = ''food''\<rparr>]
         [\<lparr>item_id = ''i1'', user_id = ''u1'', user_name = ''Ann'', percentage = Finite False 1\<rparr>,
          \<lparr>item_id = ''i1'', user_id = ''u2'', user_name = ''Bo'', percentage = Finite False 1\<rparr>,
          \<lparr>item_id = ''i1'', user_id = ''u3'', user_name = ''Cy'', percentage = Finite False 1\<rparr>,
          \<lparr>item_id = ''i1'', user_id = ''u4'', user_name = ''Di'', percentage = Finite False 1\<rparr>,
          \<lparr>item_id = ''i1'', user_id = ''u5'', user_name = ''Ed'', percentage = Finite False 1\<rparr>,
          \<lparr>item_id = ''i1'', user_id = ''u6'', user_name = ''Flo'', percentage = Finite False 1\<rparr>]
         (Some \<lparr>b_id = ''b1'', currency = ''USD'', total_amount = Finite False 100,
          tax_amount = Finite False 0, tip_amount = Finite False 0\<rparr>)
         (Some \<lparr>u_id = ''u2'', u_name = ''Bo''\<rparr>))))
     (subtotal (myTotals_double
         [\<lparr>i_id = ''i1'', i_name = ''Cake'', quantity = Finite False 1,
          unit_price = Finite False 100, category = ''food''\<rparr>]
         [\<lparr>item_id = ''i1'', user_id = ''u1'', user_name = ''Ann'', percentage = Finite False 1\<rparr>,
          \<lparr>item_id = ''i1'', user_id = ''u2'', user_name = ''Bo'', percentage = Finite False 1\<rparr>,
          \<lparr>item_id = ''i1'', user_id = ''u3'', user_name = ''Cy'', percentage = Finite False 1\<rparr>,
          \<lparr>item_id = ''i1'', user_id = ''u4'', user_name = ''Di'', percentage = Finite False 1\<rparr>,
          \<lparr>item_id = ''i1'', user_id = ''u5'', user_name = ''Ed'', percentage = Finite False 1\<rparr>,
          \<lparr>item_id = ''i1'', user_id = ''u6'', user_name = ''Flo'', percentage = Finite False 1\<rparr>]
         (Some \<lparr>b_id = ''b1'', currency = ''USD'', total_amount = Finite False 100,
          tax_amount = Finite False 0, tip_amount = Finite False 0\<rparr>)
         (Some \<lparr>u_id = ''u3'', u_name = ''Cy''\<rparr>))))
     (subtotal (myTotals_double
         [\<lparr>i_id = ''i1'', i_name = ''Cake'', quantity = Finite False 1,
          unit_price = Finite False 100, category = ''food''\<rparr>]
         [\<lparr>item_id = ''i1'', user_id = ''u1'', user_name = ''Ann'', percentage = Finite False 1\<rparr>,
          \<lparr>item_id = ''i1'', user_id = ''u2'', user_name = ''Bo'', percentage = Finite False 1\<rparr>,
          \<lparr>item_id = ''i1'', user_id = ''u3'', user_name = ''Cy'', percentage = Finite False 1\<rparr>,
          \<lparr>item_id = ''i1'', user_id = ''u4'', user_name = ''Di'', percentage = Finite False 1\<rparr>,
          \<lparr>item_id = ''i1'', user_id = ''u5'', user_name = ''Ed'', percentage = Finite False 1\<rparr>,
          \<lparr>item_id = ''i1'', user_id = ''u6'', user_name = ''Flo'', percentage = Finite False 1\<rparr>]
         (Some \<lparr>b_id = ''b1'', currency = ''USD'', total_amount = Finite False 100,
          tax_amount = Finite False 0, tip_amount = Finite False 0\<rparr>)
         (Some \<lparr>u_id = ''u4'', u_name = ''Di''\<rparr>))))
     (subtotal (myTotals_double
         [\<lparr>i_id = ''i1'', i_name = ''Cake'', quantity = Finite False 1,
          unit_price = Finite False 100, category = ''food''\<rparr>]
         [\<lparr>item_id = ''i1'', user_id = ''u1'', user_name = ''Ann'', percentage = Finite False 1\<rparr>,
          \<lparr>item_id = ''i1'', user_id = ''u2'', user_name = ''Bo'', percentage = Finite False 1\<rparr>,
          \<lparr>item_id = ''i1'', user_id = ''u3'', user_name = ''Cy'', percentage = Finite False 1\<rparr>,
          \<lparr>item_id = ''i1'', user_id = ''u4'', user_name = ''Di'', percentage = Finite False 1\<rparr>,
          \<lparr>item_id = ''i1'', user_id = ''u5'', user_name = ''Ed'', percentage = Finite False 1\<rparr>,
          \<lparr>item_id = ''i1'', user_id = ''u6'', user_name = ''Flo'', percentage = Finite False 1\<rparr>]
         (Some \<lparr>b_id = ''b1'', currency = ''USD'', total_amount = Finite False 100,
          tax_amount = Finite False 0, tip_amount = Finite False 0\<rparr>)
         (Some \<lparr>u_id = ''u5'', u_name = ''Ed''\<rparr>))))
     (subtotal (myTotals_double
         [\<lparr>i_id = ''i1'', i_name = ''Cake'', quantity = Finite False 1,
          unit_price = Finite False 100, category = ''food''\<rparr>]
         [\<lparr>item_id = ''i1'', user_id = ''u1'', user_name = ''Ann'', percentage = Finite False 1\<rparr>,
          \<lparr>item_id = ''i1'', user_id = ''u2'', user_name = ''Bo'', percentage = Finite False 1\<rparr>,
          \<lparr>item_id = ''i1'', user_id = ''u3'', user_name = ''Cy'', percentage = Finite False 1\<rparr>,
          \<lparr>item_id = ''i1'', user_id = ''u4'', user_name = ''Di'', percentage = Finite False 1\<rparr>,
          \<lparr>item_id = ''i1'', user_id = ''u5'', user_name = ''Ed'', percentage = Finite False 1\<rparr>,
          \<lparr>item_id = ''i1'', user_id = ''u6'', user_name = ''Flo'', percentage = Finite False 1\<rparr>]
         (Some \<lparr>b_id = ''b1'', currency = ''USD'', total_amount = Finite False 100,
          tax_amount = Finite False 0, tip_amount = Finite False 0\<rparr>)
         (Some \<lparr>u_id = ''u6'', u_name = ''Flo''\<rparr>)))
   = Finite False (100 + 1 / 2 ^ 46)
   \<and> Finite False (100 + 1 / 2 ^ 46) \<noteq> unit_price
         \<lparr>i_id = ''i1'', i_name = ''Cake'', quantity = Finite False 1,
          unit_price = Finite False 100, category = ''food''\<rparr>"
  by (simp add: myTotals_double_def forEach_body_double_def double_eval Let_def)

text \<open>
  C4, amended. For every item with a split count of at least 1 and no user id twice
  among its claim rows, the claimants are as many as the split count and each gets the
  same implicit share: with that claimant as the current user, the loop adds the
  quotient of the unit price by the split count to the subtotal. In exact arithmetic
  these shares sum to the item's unit price; in the doubles of the code each quotient
  and each addition is rounded. In the instance of the specification, an item of 90
  claimed by three distinct users, each share is 30 and the shares sum to 90, in
  doubles as well: this is the witness.
\<close>

theorem claimants_get_equal_shares:
  assumes "c \<in> set (filter (\<lambda>c. item_id c = i_id ditem) dcs)"
      and "distinct (map user_id (filter (\<lambda>c. item_id c = i_id ditem) dcs))"
      and "1 \<le> length (getClaimants cs (i_id item))"
      and "distinct (map user_id (getClaimants cs (i_id item)))"
  shows "forEach_body_double dcs \<lparr>u_id = user_id c, u_name = user_name c\<rparr> ditem (m, b)
           = (add_double m (div_double (unit_price ditem)
                (double_of_nat (length (filter (\<lambda>c. item_id c = i_id ditem) dcs)))),
              add_double b (unit_price ditem))
     \<and> card (set (map user_id (filter (\<lambda>c. item_id c = i_id ditem) dcs)))
           = length (filter (\<lambda>c. item_id c = i_id ditem) dcs)
     \<and> 1 \<le> length (filter (\<lambda>c. item_id c = i_id ditem) dcs)
     \<and> (\<Sum>w \<in> set (map user_id (getClaimants cs (i_id item))).
           fst (forEach_body cs \<lparr>u_id = w, u_name = nm w\<rparr> item (0, 0))) = unit_price item"
proof (intro conjI)
  let ?drows = "filter (\<lambda>c. item_id c = i_id ditem) dcs"
  let ?rows = "getClaimants cs (i_id item)"
  have mine: "list_ex (\<lambda>c'. user_id c' = user_id c) ?drows"
    using assms(1) by (auto simp add: list_ex_iff)
  then show "forEach_body_double dcs \<lparr>u_id = user_id c, u_name = user_name c\<rparr> ditem (m, b)
           = (add_double m (div_double (unit_price ditem) (double_of_nat (length ?drows))),
              add_double b (unit_price ditem))"
    by (simp add: forEach_body_double_eq)
  have "card (set (map user_id ?drows)) = length (map user_id ?drows)"
    using assms(2) by (rule distinct_card)
  then show "card (set (map user_id ?drows)) = length ?drows"
    by simp
  show "1 \<le> length ?drows"
    using mine by (rule list_ex_length_pos)
  have "(\<Sum>w \<in> set (map user_id ?rows). fst (forEach_body cs \<lparr>u_id = w, u_name = nm w\<rparr> item (0, 0)))
          = (\<Sum>w \<in> set (map user_id ?rows). myShare cs \<lparr>u_id = w, u_name = nm w\<rparr> item)"
    by (simp add: forEach_body_eq)
  also have "\<dots> = (\<Sum>w \<leftarrow> map user_id ?rows. myShare cs \<lparr>u_id = w, u_name = nm w\<rparr> item)"
    using assms(4) by (simp only: sum_list_distinct_conv_sum_set)
  also have "\<dots> = (\<Sum>c \<leftarrow> ?rows. myShare cs \<lparr>u_id = user_id c, u_name = nm (user_id c)\<rparr> item)"
    by (simp add: comp_def)
  also have "\<dots> = (\<Sum>c \<leftarrow> ?rows. unit_price item / real (length ?rows))"
    by (simp add: myShare_of_claimant cong: map_cong)
  also have "\<dots> = unit_price item"
    using assms(3) by (simp only: sum_list_equal_shares)
  finally show "(\<Sum>w \<in> set (map user_id ?rows).
      fst (forEach_body cs \<lparr>u_id = w, u_name = nm w\<rparr> item (0, 0))) = unit_price item" .
qed

theorem claimants_get_equal_shares_witness:
  "\<lparr>item_id = ''i1'', user_id = ''u1'', user_name = ''Ann'', percentage = Finite False 1\<rparr>
     \<in> set (filter (\<lambda>c. item_id c = i_id
         \<lparr>i_id = ''i1'', i_name = ''Pizza'', quantity = Finite False 1,
          unit_price = Finite False 90, category = ''food''\<rparr>)
         [\<lparr>item_id = ''i1'', user_id = ''u1'', user_name = ''Ann'', percentage = Finite False 1\<rparr>,
          \<lparr>item_id = ''i1'', user_id = ''u2'', user_name = ''Bo'', percentage = Finite False 1\<rparr>,
          \<lparr>item_id = ''i1'', user_id = ''u3'', user_name = ''Cy'', percentage = Finite False 1\<rparr>])
   \<and> distinct (map user_id (filter (\<lambda>c. item_id c = i_id
         \<lparr>i_id = ''i1'', i_name = ''Pizza'', quantity = Finite False 1,
          unit_price = Finite False 90, category = ''food''\<rparr>)
         [\<lparr>item_id = ''i1'', user_id = ''u1'', user_name = ''Ann'', percentage = Finite False 1\<rparr>,
          \<lparr>item_id = ''i1'', user_id = ''u2'', user_name = ''Bo'', percentage = Finite False 1\<rparr>,
          \<lparr>item_id = ''i1'', user_id = ''u3'', user_name = ''Cy'', percentage = Finite False 1\<rparr>]))
   \<and> 1 \<le> length (getClaimants
         [\<lparr>item_id = ''i1'', user_id = ''u1'', user_name = ''Ann'', percentage = 1\<rparr>,
          \<lparr>item_id = ''i1'', user_id = ''u2'', user_name = ''Bo'', percentage = 1\<rparr>,
          \<lparr>item_id = ''i1'', user_id = ''u3'', user_name = ''Cy'', percentage = 1\<rparr>] ''i1'')
   \<and> distinct (map user_id (getClaimants
         [\<lparr>item_id = ''i1'', user_id = ''u1'', user_name = ''Ann'', percentage = 1\<rparr>,
          \<lparr>item_id = ''i1'', user_id = ''u2'', user_name = ''Bo'', percentage = 1\<rparr>,
          \<lparr>item_id = ''i1'', user_id = ''u3'', user_name = ''Cy'', percentage = 1\<rparr>] ''i1''))
   \<and> forEach_body_double
         [\<lparr>item_id = ''i1'', user_id = ''u1'', user_name = ''Ann'', percentage = Finite False 1\<rparr>,
          \<lparr>item_id = ''i1'', user_id = ''u2'', user_name = ''Bo'', percentage = Finite False 1\<rparr>,
          \<lparr>item_id = ''i1'', user_id = ''u3'', user_name = ''Cy'', percentage = Finite False 1\<rparr>]
         \<lparr>u_id = ''u1'', u_name = ''Ann''\<rparr>
         \<lparr>i_id = ''i1'', i_name = ''Pizza'', quantity = Finite False 1,
          unit_price = Finite False 90, category = ''food''\<rparr>
         (zero_double, zero_double)
       = (Finite False 30, Finite False 90)
   \<and> forEach_body_double
         [\<lparr>item_id = ''i1'', user_id = ''u1'', user_name = ''Ann'', percentage = Finite False 1\<rparr>,
          \<lparr>item_id = ''i1'', user_id = ''u2'', user_name = ''Bo'', percentage = Finite False 1\<rparr>,
          \<lparr>item_id = ''i1'', user_id = ''u3'', user_name = ''Cy'', percentage = Finite False 1\<rparr>]
         \<lparr>u_id = ''u2'', u_name = ''Bo''\<rparr>
         \<lparr>i_id = ''i1'', i_name = ''Pizza'', quantity = Finite False 1,
          unit_price = Finite False 90, category = ''food''\<rparr>
         (zero_double, zero_double)
       = (Finite False 30, Finite False 90)
   \<and> forEach_body_double
         [\<lparr>item_id = ''i1'', user_id = ''u1'', user_name = ''Ann'', percentage = Finite False 1\<rparr>,
          \<lparr>item_id = ''i1'', user_id = ''u2'', user_name = ''Bo'', percentage = Finite False 1\<rparr>,
          \<lparr>item_id = ''i1'', user_id = ''u3'', user_name = ''Cy'', percentage = Finite False 1\<rparr>]
         \<lparr>u_id = ''u3'', u_name = ''Cy''\<rparr>
         \<lparr>i_id = ''i1'', i_name = ''Pizza'', quantity = Finite False 1,
          unit_price = Finite False 90, category = ''food''\<rparr>
         (zero_double, zero_double)
       = (Finite False 30, Finite False 90)
   \<and> add_double (add_double (Finite False 30) (Finite False 30)) (Finite False 30) = Finite False 90
   \<and> (\<Sum>w \<in> set (map user_id (getClaimants
         [\<lparr>item_id = ''i1'', user_id = ''u1'', user_name = ''Ann'', percentage = 1\<rparr>,
          \<lparr>item_id = ''i1'', user_id = ''u2'', user_name = ''Bo'', percentage = 1\<rparr>,
          \<lparr>item_id = ''i1'', user_id = ''u3'', user_name = ''Cy'', percentage = 1\<rparr>] ''i1'')).
        fst (forEach_body
         [\<lparr>item_id = ''i1'', user_id = ''u1'', user_name = ''Ann'', percentage = 1\<rparr>,
          \<lparr>item_id = ''i1'', user_id = ''u2'', user_name = ''Bo'', percentage = 1\<rparr>,
          \<lparr>item_id = ''i1'', user_id = ''u3'', user_name = ''Cy'', percentage = 1\<rparr>]
         \<lparr>u_id = w, u_name = id w\<rparr>
         \<lparr>i_id = ''i1'', i_name = ''Pizza'', quantity = 1, unit_price = 90, category = ''food''\<rparr> (0, 0))) = 90"
  using claimants_get_equal_shares
    [of "\<lparr>item_id = ''i1'', user_id = ''u1'', user_name = ''Ann'', percentage = Finite False 1\<rparr>"
        "\<lparr>i_id = ''i1'', i_name = ''Pizza'', quantity = Finite False 1,
          unit_price = Finite False 90, category = ''food''\<rparr>"
        "[\<lparr>item_id = ''i1'', user_id = ''u1'', user_name = ''Ann'', percentage = Finite False 1\<rparr>,
          \<lparr>item_id = ''i1'', user_id = ''u2'', user_name = ''Bo'', percentage = Finite False 1\<rparr>,
          \<lparr>item_id = ''i1'', user_id = ''u3'', user_name = ''Cy'', percentage = Finite False 1\<rparr>]"
        "[\<lparr>item_id = ''i1'', user_id = ''u1'', user_name = ''Ann'', percentage = 1\<rparr>,
          \<lparr>item_id = ''i1'', user_id = ''u2'', user_name = ''Bo'', percentage = 1\<rparr>,
          \<lparr>item_id = ''i1'', user_id = ''u3'', user_name = ''Cy'', percentage = 1\<rparr>]"
        "\<lparr>i_id = ''i1'', i_name = ''Pizza'', quantity = 1, unit_price = 90, category = ''food''\<rparr>"
        zero_double zero_double id]
  by (simp add: getClaimants_def forEach_body_double_def forEach_body_def double_eval)

text \<open>
  C5. The allocation engine never divides by zero: with every division checked the
  engine still returns, and returns what the unchecked code returns; the division by
  the number of claimants is reached only when the current user is among the item's
  claimants, and then that number is at least 1; the ratio is a quotient only when the
  bill subtotal is positive and is 0 otherwise; when every item has a unit price of 0,
  the bill subtotal is 0 and the ratio is 0, with no error.
\<close>

theorem myTotals_division_guarded:
  "myTotals_checked its cs bill user = Inr (myTotals its cs bill user)
   \<and> (list_ex (\<lambda>c. user_id c = u_id u) (getClaimants cs (i_id item)) \<longrightarrow>
        1 \<le> length (getClaimants cs (i_id item)))
   \<and> forEach_body_checked cs u item acc \<noteq> Inl DivisionByZero
   \<and> ratio_checked m b \<noteq> Inl DivisionByZero
   \<and> (\<not> b > 0 \<longrightarrow> ratio_checked m b = Inr 0)
   \<and> (list_all (\<lambda>item. unit_price item = 0) its \<longrightarrow>
        (case forEach_checked cs u its (0, 0) of
           Inl e \<Rightarrow> False
         | Inr (mySubtotal, billSubtotal) \<Rightarrow>
             billSubtotal = 0 \<and> ratio_checked mySubtotal billSubtotal = Inr 0))"
proof (intro conjI impI)
  show "myTotals_checked its cs bill user = Inr (myTotals its cs bill user)"
    by (cases user; cases bill)
       (simp_all add: myTotals_checked_def myTotals_def forEach_checked_eq ratio_checked_eq
          Let_def split: prod.splits)
  show "forEach_body_checked cs u item acc \<noteq> Inl DivisionByZero"
    by (simp add: forEach_body_checked_eq)
  show "ratio_checked m b \<noteq> Inl DivisionByZero"
    by (simp add: ratio_checked_eq)
next
  assume "\<not> b > 0"
  then show "ratio_checked m b = Inr 0"
    by (simp add: ratio_checked_def)
next
  assume "list_ex (\<lambda>c. user_id c = u_id u) (getClaimants cs (i_id item))"
  then show "1 \<le> length (getClaimants cs (i_id item))"
    by (rule list_ex_length_pos)
next
  assume "list_all (\<lambda>item. unit_price item = 0) its"
  then have "(\<Sum>item \<leftarrow> its. unit_price item) = 0"
    by (rule sum_list_all_zero)
  then show "case forEach_checked cs u its (0, 0) of
           Inl e \<Rightarrow> False
         | Inr (mySubtotal, billSubtotal) \<Rightarrow>
             billSubtotal = 0 \<and> ratio_checked mySubtotal billSubtotal = Inr 0"
    by (simp add: forEach_checked_eq fold_forEach_body ratio_checked_eq)
qed

theorem myTotals_division_guarded_witness:
  "list_all (\<lambda>item. unit_price item = (0::real))
     [\<lparr>i_id = ''i1'', i_name = ''Water'', quantity = 1, unit_price = 0, category = ''drink''\<rparr>]
   \<and> list_ex (\<lambda>c. user_id c = u_id \<lparr>u_id = ''u1'', u_name = ''Ann''\<rparr>)
        (getClaimants
          [\<lparr>item_id = ''i1'', user_id = ''u1'', user_name = ''Ann'', percentage = 1\<rparr>] ''i1'')
   \<and> myTotals_checked
        [\<lparr>i_id = ''i1'', i_name = ''Water'', quantity = 1, unit_price = 0, category = ''drink''\<rparr>]
        [\<lparr>item_id = ''i1'', user_id = ''u1'', user_name = ''Ann'', percentage = 1\<rparr>]
        (Some \<lparr>b_id = ''b1'', currency = ''USD'', total_amount = 30, tax_amount = 20, tip_amount = 10\<rparr>)
        (Some \<lparr>u_id = ''u1'', u_name = ''Ann''\<rparr>)
      = Inr \<lparr>subtotal = 0, tax = 0, tip = 0, total = 0\<rparr>
   \<and> forEach_checked
        [\<lparr>item_id = ''i1'', user_id = ''u1'', user_name = ''Ann'', percentage = 1\<rparr>]
        \<lparr>u_id = ''u1'', u_name = ''Ann''\<rparr>
        [\<lparr>i_id = ''i1'', i_name = ''Water'', quantity = 1, unit_price = 0, category = ''drink''\<rparr>]
        (0, 0) = Inr (0, 0)
   \<and> \<not> (0::real) > 0
   \<and> ratio_checked 0 0 = Inr 0"
  using myTotals_division_guarded
    [of "[\<lparr>i_id = ''i1'', i_name = ''Water'', quantity = 1, unit_price = 0, category = ''drink''\<rparr>]"
        "[\<lparr>item_id = ''i1'', user_id = ''u1'', user_name = ''Ann'', percentage = 1\<rparr>]"
        "Some \<lparr>b_id = ''b1'', currency = ''USD'', total_amount = 30, tax_amount = 20, tip_amount = 10\<rparr>"
        "Some \<lparr>u_id = ''u1'', u_name = ''Ann''\<rparr>"
        "\<lparr>u_id = ''u1'', u_name = ''Ann''\<rparr>"
        "\<lparr>i_id = ''i1'', i_name = ''Water'', quantity = 1, unit_price = 0, category = ''drink''\<rparr>"
        "(0, 0)" 0 0]
  by (simp add: getClaimants_def myTotals_def forEach_body_def forEach_body_checked_def
      checked_div_def ratio_checked_def)




text \<open>
  C7. Identity persistence round-trips: for a name that satisfies the caller's
  precondition and with the storage available, registering the name and then resolving
  the identity afresh from the storage, as after a reload, gives the user that the
  registration gave, with the same id and the same name. A name that is non-empty
  after trimming is non-empty, which is all the round trip needs of it; the
  identifier \<^verbatim>\<open>uuidv4()\<close> answers is a string of 36 characters, so it is non-empty.
\<close>

theorem register_then_resolve:
  assumes "nm \<noteq> []" and "newId \<noteq> []"
  shows "resolveIdentity (fst (registerIdentity newId nm ls)) = snd (registerIdentity newId nm ls)
         \<and> snd (registerIdentity newId nm ls) = Some \<lparr>u_id = newId, u_name = nm\<rparr>"
  using assms
  by (simp add: resolveIdentity_eq registerIdentity_def registerUser_def)

theorem register_then_resolve_witness:
  "''Ann'' \<noteq> [] \<and> ''3f2a'' \<noteq> []
   \<and> resolveIdentity (fst (registerIdentity ''3f2a'' ''Ann'' Map.empty))
       = Some \<lparr>u_id = ''3f2a'', u_name = ''Ann''\<rparr>"
  using register_then_resolve [of "''Ann''" "''3f2a''" Map.empty]
  by simp

text \<open>
  C8, as the specification states it: with the base endpoint configuration absent
  and the user resolved, the submission fails fast with a configuration error that is
  surfaced through a blocking, user-visible alert, with no network call attempted.
  This fails on the code, which calls \<^verbatim>\<open>alert\<close> in its \<^verbatim>\<open>catch\<close> block only: with no
  endpoint configured and Ann resolved, the list of alerts is still empty after the
  call.
\<close>

theorem handleClaim_no_config_no_alert:
  "s_alerts (handleClaim None (Response 200) ''b1'' ''i1''
     \<lparr>s_items = [], s_claims = [], s_bill = None,
      s_user = Some \<lparr>u_id = ''u1'', u_name = ''Ann''\<rparr>,
      s_localStorage = Map.empty, s_console = [], s_alerts = [], s_requests = []\<rparr>) = []"
  by (simp add: handleClaim_def truthy_def)

text \<open>
  C8, amended. When the base endpoint configuration is absent (undefined or the empty
  string) and the user is resolved, the submission returns at once without attempting
  any network call; the failure is written to the console only, and no alert is shown.
\<close>

theorem handleClaim_no_config:
  assumes "s_user st \<noteq> None" and "\<not> truthy apiUrl"
  shows "handleClaim apiUrl answer billId itemId st
           = st\<lparr>s_console := s_console st @ [ApiUrlNotDefined]\<rparr>
         \<and> s_requests (handleClaim apiUrl answer billId itemId st) = s_requests st
         \<and> s_alerts (handleClaim apiUrl answer billId itemId st) = s_alerts st"
  using assms by (auto simp add: handleClaim_def)

theorem handleClaim_no_config_witness:
  "s_user \<lparr>s_items = [], s_claims = [], s_bill = None,
      s_user = Some \<lparr>u_id = ''u1'', u_name = ''Ann''\<rparr>,
      s_localStorage = Map.empty, s_console = [], s_alerts = [], s_requests = []\<rparr> \<noteq> None
   \<and> \<not> truthy None
   \<and> handleClaim None (Response 200) ''b1'' ''i1''
       \<lparr>s_items = [], s_claims = [], s_bill = None,
        s_user = Some \<lparr>u_id = ''u1'', u_name = ''Ann''\<rparr>,
        s_localStorage = Map.empty, s_console = [], s_alerts = [], s_requests = []\<rparr>
     = \<lparr>s_items = [], s_claims = [], s_bill = None,
        s_user = Some \<lparr>u_id = ''u1'', u_name = ''Ann''\<rparr>,
        s_localStorage = Map.empty, s_console = [ApiUrlNotDefined], s_alerts = [],
        s_requests = []\<rparr>"
  using handleClaim_no_config [of
      "\<lparr>s_items = [], s_claims = [], s_bill = None,
        s_user = Some \<lparr>u_id = ''u1'', u_name = ''Ann''\<rparr>,
        s_localStorage = Map.empty, s_console = [], s_alerts = [], s_requests = []\<rparr>"
      None "Response 200" "''b1''" "''i1''"]
  by (simp add: truthy_def)

text \<open>
  C9. The submission never updates the local snapshot: for every invocation and every
  outcome (success, missing configuration, server error, network error) the items, the
  claims and the bill of the page, the resolved user and the stored identity are after
  the call what they were before it.
\<close>

theorem handleClaim_frame:
  "s_items (handleClaim apiUrl answer billId itemId st) = s_items st
   \<and> s_claims (handleClaim apiUrl answer billId itemId st) = s_claims st
   \<and> s_bill (handleClaim apiUrl answer billId itemId st) = s_bill st
   \<and> s_user (handleClaim apiUrl answer billId itemId st) = s_user st
   \<and> s_localStorage (handleClaim apiUrl answer billId itemId st) = s_localStorage st"
  by (simp add: handleClaim_def catch_block_def Let_def split: option.splits fetch_result.splits)

text \<open>
  C10. Resolving the identity gives a user exactly when both persisted strings, the id
  and the name, are present and non-empty, and then the user made of these two strings;
  when either stored value is the empty string the result is absent, as it is when the
  key is missing.
\<close>

theorem resolveIdentity_present_nonempty:
  "(resolveIdentity ls = Some usr) =
     (ls ''bill_splitter_user_id'' = Some (u_id usr) \<and> u_id usr \<noteq> []
      \<and> ls ''bill_splitter_user_name'' = Some (u_name usr) \<and> u_name usr \<noteq> [])
   \<and> (resolveIdentity ls = None) =
     (ls ''bill_splitter_user_id'' = None \<or> ls ''bill_splitter_user_id'' = Some []
      \<or> ls ''bill_splitter_user_name'' = None \<or> ls ''bill_splitter_user_name'' = Some [])"
  by (cases usr) (auto simp add: resolveIdentity_eq split: option.splits)

end
